theory Spec2Isabelle
  imports Complex_Main
begin

section \<open>JavaScript objects with string keys\<close>

text \<open>
  The upload state and the three per-direction tables of a response are plain JavaScript
  objects. An object is modelled by the list of its own properties in insertion order,
  which is the order \<^verbatim>\<open>Object.keys\<close>, \<^verbatim>\<open>Object.values\<close> and
  \<^verbatim>\<open>Object.entries\<close> enumerate for keys that are not array indices (none of the keys
  of this program is one). A slot value \<open>None\<close> is JavaScript's \<^verbatim>\<open>null\<close>.
\<close>

type_synonym 'v js_object = "(string \<times> 'v) list"

definition Object_keys :: "'v js_object \<Rightarrow> string list" where
  "Object_keys obj = map fst obj"

definition Object_values :: "'v js_object \<Rightarrow> 'v list" where
  "Object_values obj = map snd obj"

text \<open>\<^verbatim>\<open>obj[k]\<close>: \<open>None\<close> is \<^verbatim>\<open>undefined\<close> (no such property).\<close>

definition js_get :: "'v js_object \<Rightarrow> string \<Rightarrow> 'v option" where
  "js_get obj k = map_of obj k"

text \<open>
  \<^verbatim>\<open>obj[k] = v\<close> (and a computed key in an object literal after a spread): an existing
  property keeps its place, a new one is appended.
\<close>

fun js_set :: "'v js_object \<Rightarrow> string \<Rightarrow> 'v \<Rightarrow> 'v js_object" where
  "js_set [] k v = [(k, v)]"
| "js_set ((k', v') # rest) k v =
     (if k' = k then (k, v) # rest else (k', v') # js_set rest k v)"

section \<open>The image upload component (ImageUpload)\<close>

text \<open>The browser's File object: the properties the component reads, and its content.\<close>

record js_file =
  file_name :: string
  file_size :: nat
  file_bytes :: string

text \<open>
  The object stored in a slot: \<^verbatim>\<open>{ file, preview, name, size }\<close>
  (\<open>file\<close> is written \<open>file_obj\<close>, \<open>size\<close> is written \<open>size_bytes\<close>).
\<close>

record image_data =
  file_obj :: js_file
  preview :: string
  name :: string
  size_bytes :: nat

type_synonym slots = "image_data option js_object"

definition directions :: "string list" where
  "directions = [''north'', ''south'', ''east'', ''west'']"

text \<open>The argument of \<^verbatim>\<open>useState\<close>: all four slots \<^verbatim>\<open>null\<close>.\<close>

definition initial_images :: slots where
  "initial_images = [(''north'', None), (''south'', None), (''east'', None), (''west'', None)]"

text \<open>
  The slot value built in every \<^verbatim>\<open>reader.onload\<close>; \<open>result\<close> is
  \<^verbatim>\<open>e.target.result\<close>, the data URL the reader produced.
\<close>

definition mk_image :: "js_file \<Rightarrow> string \<Rightarrow> image_data" where
  "mk_image f result =
     \<lparr>file_obj = f, preview = result, name = file_name f, size_bytes = file_size f\<rparr>"

text \<open>\<^verbatim>\<open>Object.values(o).every(img => img !== null)\<close>\<close>

definition every_not_null :: "slots \<Rightarrow> bool" where
  "every_not_null obj = list_all (\<lambda>img. img \<noteq> None) (Object_values obj)"

subsection \<open>Bulk drop: onDrop and the onload handler of each of its readers\<close>

text \<open>
  \<^verbatim>\<open>directions[index]\<close> used as a property key: beyond the fourth element the read is
  \<^verbatim>\<open>undefined\<close>, and the property key is then the string \<^verbatim>\<open>"undefined"\<close>.
\<close>

definition directions_at :: "nat \<Rightarrow> string" where
  "directions_at index = (if index < length directions then directions ! index else ''undefined'')"

text \<open>
  One call of onDrop owns one object \<open>newImages\<close>, shared by the onload handlers of all
  its readers, and the list \<open>acceptedFiles\<close>.
\<close>

record drop_batch =
  batch_newImages :: slots
  batch_files :: "js_file list"

text \<open>
  The synchronous part of onDrop: copy the state of the last render, and reset the four
  directions when exactly four files were dropped. The readers are started; nothing is
  stored or notified yet.
\<close>

definition onDrop :: "slots \<Rightarrow> js_file list \<Rightarrow> drop_batch" where
  "onDrop imgs acceptedFiles =
     \<lparr>batch_newImages =
        (if length acceptedFiles = 4
         then foldl (\<lambda>obj dir. js_set obj dir None) imgs directions
         else imgs),
      batch_files = acceptedFiles\<rparr>"

text \<open>
  \<^verbatim>\<open>acceptedFiles.length === 4 ? directions[index]
     : Object.keys(newImages).find(dir => !newImages[dir]) || directions[index]\<close>
  A key found by \<^verbatim>\<open>find\<close> is used unless it is the empty string (falsy).
  \<open>js_not v\<close> is \<^verbatim>\<open>!v\<close> for a value read from a slot object: true for
  \<^verbatim>\<open>undefined\<close> and \<^verbatim>\<open>null\<close>, false for an image object.
\<close>

definition js_not :: "image_data option option \<Rightarrow> bool" where
  "js_not v = (case v of Some (Some _) \<Rightarrow> False | _ \<Rightarrow> True)"

definition pick_direction :: "slots \<Rightarrow> nat \<Rightarrow> nat \<Rightarrow> string" where
  "pick_direction newImages n index =
     (if n = 4 then directions_at index
      else (case find (\<lambda>dir. js_not (js_get newImages dir)) (Object_keys newImages) of
              Some dir \<Rightarrow> if dir \<noteq> [] then dir else directions_at index
            | None \<Rightarrow> directions_at index))"

text \<open>
  \<^verbatim>\<open>reader.onload\<close> of the reader for \<open>file\<close> at position \<open>index\<close>. Returns the
  batch with its shared object updated, the value given to \<^verbatim>\<open>setImages\<close> (the
  component's next state), and the values passed to \<^verbatim>\<open>onImagesUpload\<close>.
  The callback receives the batch's object itself, not a copy. Once no slot of that
  object is \<^verbatim>\<open>null\<close> none becomes \<^verbatim>\<open>null\<close> again, so every later change of it
  by the same batch is followed, in the same handler, by another call of the callback:
  when a handler has finished, what the receiver holds equals what was last passed.
  Values are therefore passed as values here.
\<close>

definition onDrop_onload ::
  "drop_batch \<Rightarrow> js_file \<Rightarrow> nat \<Rightarrow> string \<Rightarrow> drop_batch \<times> slots \<times> slots list" where
  "onDrop_onload b f index result =
     (let direction = pick_direction (batch_newImages b) (length (batch_files b)) index;
          newImages = js_set (batch_newImages b) direction (Some (mk_image f result))
      in (b\<lparr>batch_newImages := newImages\<rparr>,
          newImages,
          if every_not_null newImages then [newImages] else []))"

text \<open>
  The readers of one batch complete in some order (\<open>order\<close> lists file positions);
  \<open>res i\<close> is the data URL of file \<open>i\<close>. The result is the batch, the component state
  and all notifications so far; \<open>None\<close> if \<open>order\<close> names a reader that does not exist.
\<close>

fun complete_reads ::
  "(nat \<Rightarrow> string) \<Rightarrow> nat list \<Rightarrow> drop_batch \<times> slots \<times> slots list
     \<Rightarrow> (drop_batch \<times> slots \<times> slots list) option" where
  "complete_reads res [] st = Some st"
| "complete_reads res (i # order) (b, imgs, notes) =
     (if i < length (batch_files b)
      then (case onDrop_onload b (batch_files b ! i) i (res i) of
              (b', imgs', ns) \<Rightarrow> complete_reads res order (b', imgs', notes @ ns))
      else None)"

text \<open>A whole bulk drop on component state \<open>imgs\<close>, its readers completing in \<open>order\<close>.\<close>

definition assignBulk ::
  "(nat \<Rightarrow> string) \<Rightarrow> nat list \<Rightarrow> js_file list \<Rightarrow> slots \<Rightarrow> (slots \<times> slots list) option" where
  "assignBulk res order acceptedFiles imgs =
     map_option snd (complete_reads res order (onDrop imgs acceptedFiles, imgs, []))"

subsection \<open>removeImage\<close>

text \<open>Returns the value given to \<^verbatim>\<open>setImages\<close> and the notifications.\<close>

definition removeImage :: "string \<Rightarrow> slots \<Rightarrow> slots \<times> slots list" where
  "removeImage direction imgs =
     (let newImages = js_set imgs direction None in (newImages, [newImages]))"

subsection \<open>handleIndividualUpload\<close>

text \<open>
  The reader started by a per-slot upload. Its onload closure keeps the \<open>images\<close> of the
  render in which the handler was created, the direction and the file.
\<close>

record slot_reader =
  reader_images :: slots
  reader_direction :: string
  reader_file :: js_file

text \<open>
  \<open>files\<close> is \<^verbatim>\<open>event.target.files\<close>. The call itself stores nothing and notifies
  nobody: it returns the unchanged state, no notification, and the reader it started,
  if any.
\<close>

definition handleIndividualUpload ::
  "string \<Rightarrow> js_file list \<Rightarrow> slots \<Rightarrow> slots \<times> slots list \<times> slot_reader option" where
  "handleIndividualUpload direction files imgs =
     (case files of
        [] \<Rightarrow> (imgs, [], None)
      | f # _ \<Rightarrow> (imgs, [],
                  Some \<lparr>reader_images = imgs, reader_direction = direction, reader_file = f\<rparr>))"

text \<open>
  \<^verbatim>\<open>reader.onload\<close> of a per-slot reader: the next state is built from the captured
  \<open>images\<close>, stored and notified.
\<close>

definition handleIndividualUpload_onload :: "slot_reader \<Rightarrow> string \<Rightarrow> slots \<times> slots list" where
  "handleIndividualUpload_onload r result =
     (let newImages = js_set (reader_images r) (reader_direction r)
                        (Some (mk_image (reader_file r) result))
      in (newImages, [newImages]))"

text \<open>A per-slot upload whose reader completes before anything else happens.\<close>

definition assignSingle :: "string \<Rightarrow> js_file \<Rightarrow> string \<Rightarrow> slots \<Rightarrow> slots \<times> slots list" where
  "assignSingle direction f result imgs =
     (case handleIndividualUpload direction [f] imgs of
        (_, _, Some r) \<Rightarrow> handleIndividualUpload_onload r result
      | (imgs', ns, None) \<Rightarrow> (imgs', ns))"

section \<open>The API service (services/api.js)\<close>

text \<open>
  \<^verbatim>\<open>response.data\<close>: the parsed JSON body, an object whose fields may each be absent.
  The \<open>error\<close> field is written \<open>error_field\<close>; it is a string, as the service's
  error responses have it.
\<close>

record body =
  vehicle_counts :: "int js_object option"
  traffic_density :: "string js_object option"
  signal_states :: "string js_object option"
  recommendations :: "string list option"
  analysis_timestamp :: "string option"
  ai_confidence :: "real option"
  processing_time_ms :: "nat option"
  error_field :: "string option"

record http_response =
  status :: nat
  data :: "body option"

text \<open>What happens to a request on the wire.\<close>

datatype wire =
    Reply http_response
  | No_reply
  | Not_sent

text \<open>
  How the HTTP client settles the promise of a request, before the interceptors run:
  fulfilled with the response, or rejected with an error that carries
  \<^verbatim>\<open>error.response\<close>, or only \<^verbatim>\<open>error.request\<close>, or neither.
\<close>

datatype axios_outcome =
    Fulfilled http_response
  | Rejected_response http_response
  | Rejected_request
  | Rejected_setup

text \<open>
  The client library's own rule, with the instance's configuration (no
  \<^verbatim>\<open>validateStatus\<close> is given, so the default \<^verbatim>\<open>status >= 200 && status < 300\<close>
  applies; a request that gets no reply within \<^verbatim>\<open>timeout: 30000\<close> ms, or none at
  all, is rejected with \<^verbatim>\<open>error.request\<close> only).
\<close>

definition axios_settle :: "wire \<Rightarrow> axios_outcome" where
  "axios_settle w =
     (case w of
        Reply r \<Rightarrow> if 200 \<le> status r \<and> status r < 300 then Fulfilled r else Rejected_response r
      | No_reply \<Rightarrow> Rejected_request
      | Not_sent \<Rightarrow> Rejected_setup)"

text \<open>The decimal numeral of a number, as a template literal prints it.\<close>

fun show_nat :: "nat \<Rightarrow> string" where
  "show_nat n =
     (if n < 10 then [''0123456789'' ! n]
      else show_nat (n div 10) @ [''0123456789'' ! (n mod 10)])"

declare show_nat.simps [simp del]

text \<open>
  The response interceptor. \<open>Inl message\<close> is \<^verbatim>\<open>throw new Error(message)\<close>.
  \<^verbatim>\<open>error.response.data?.error || `Server error: ${error.response.status}`\<close>:
  an absent body, an absent field and the empty string are all falsy.
\<close>

definition response_interceptor :: "axios_outcome \<Rightarrow> string + http_response" where
  "response_interceptor out =
     (case out of
        Fulfilled response \<Rightarrow> Inr response
      | Rejected_response response \<Rightarrow>
          Inl (case (case data response of None \<Rightarrow> None | Some d \<Rightarrow> error_field d) of
                 Some message \<Rightarrow>
                   if message \<noteq> [] then message
                   else ''Server error: '' @ show_nat (status response)
               | None \<Rightarrow> ''Server error: '' @ show_nat (status response))
      | Rejected_request \<Rightarrow>
          Inl ''No response from server. Please check if the backend is running.''
      | Rejected_setup \<Rightarrow>
          Inl ''Request failed. Please check your connection.'')"

text \<open>The form data analyzeTraffic builds: one field per entry that holds an image.\<close>

definition formData :: "slots \<Rightarrow> (string \<times> js_file) list" where
  "formData imgs =
     List.map_filter
       (\<lambda>(direction, imageData).
          case imageData of None \<Rightarrow> None | Some img \<Rightarrow> Some (direction, file_obj img))
       imgs"

text \<open>
  analyzeTraffic after its \<^verbatim>\<open>await api.post(...)\<close>: \<open>Inr\<close> is the returned
  \<^verbatim>\<open>response.data\<close>, \<open>Inl\<close> the message of the rethrown error.
\<close>

definition analyzeTraffic :: "wire \<Rightarrow> string + body option" where
  "analyzeTraffic w =
     (case response_interceptor (axios_settle w) of
        Inl message \<Rightarrow> Inl message
      | Inr response \<Rightarrow> Inr (data response))"

section \<open>The application component (App)\<close>

record app_state =
  images :: slots
  analysis :: "body option"
  loading :: bool
  error :: "string option"

definition initial_app :: app_state where
  "initial_app = \<lparr>images = initial_images, analysis = None, loading = False, error = None\<rparr>"

definition handleImagesUpload :: "slots \<Rightarrow> app_state \<Rightarrow> app_state" where
  "handleImagesUpload uploadedImages s = s\<lparr>images := uploadedImages, error := None\<rparr>"

text \<open>
  handleAnalyzeTraffic up to its \<^verbatim>\<open>await\<close>: the next state, and the request it
  issued, if any (the form data posted to \<^verbatim>\<open>/analyze-traffic\<close>).
\<close>

definition handleAnalyzeTraffic :: "app_state \<Rightarrow> app_state \<times> (string \<times> js_file) list option" where
  "handleAnalyzeTraffic s =
     (if \<not> every_not_null (images s)
      then (s\<lparr>error := Some ''Please upload images for all four directions''\<rparr>, None)
      else (s\<lparr>loading := True, error := None\<rparr>, Some (formData (images s))))"

text \<open>
  handleAnalyzeTraffic from its \<^verbatim>\<open>await\<close> on, when the request settles: the
  \<^verbatim>\<open>try\<close> body or the \<^verbatim>\<open>catch\<close> clause, then \<^verbatim>\<open>finally\<close>.
\<close>

definition handleAnalyzeTraffic_resume :: "wire \<Rightarrow> app_state \<Rightarrow> app_state" where
  "handleAnalyzeTraffic_resume w s =
     (case analyzeTraffic w of
        Inr result \<Rightarrow> s\<lparr>analysis := result, loading := False\<rparr>
      | Inl message \<Rightarrow>
          s\<lparr>error := Some (if message \<noteq> [] then message
                           else ''Failed to analyze traffic. Please try again.''),
            loading := False\<rparr>)"

text \<open>
  The analyze button: \<^verbatim>\<open>disabled={!allImagesUploaded || loading}\<close>,
  \<^verbatim>\<open>onClick={handleAnalyzeTraffic}\<close>. A disabled button delivers no click.
\<close>

definition allImagesUploaded :: "app_state \<Rightarrow> bool" where
  "allImagesUploaded s = every_not_null (images s)"

definition analyze_button_disabled :: "app_state \<Rightarrow> bool" where
  "analyze_button_disabled s = (\<not> allImagesUploaded s \<or> loading s)"

definition analyze_button_click :: "app_state \<Rightarrow> app_state \<times> (string \<times> js_file) list option" where
  "analyze_button_click s =
     (if analyze_button_disabled s then (s, None) else handleAnalyzeTraffic s)"

subsection \<open>The derived statistics (App header and AnalysisResults)\<close>









section \<open>The two components together\<close>

text \<open>
  ImageUpload is rendered with \<^verbatim>\<open>onImagesUpload={handleImagesUpload}\<close>: every
  notification of the upload component runs handleImagesUpload on the App state.
\<close>

record system =
  upload :: slots
  app :: app_state









text \<open>
  The App states the user interface can reach, with the number of requests that are
  awaiting their settlement: notifications (of any value), clicks on the analyze button,
  and the settlement of a request in flight.
\<close>

inductive reachable :: "app_state \<Rightarrow> nat \<Rightarrow> bool" where
  reach_init: "reachable initial_app 0"
| reach_notify: "reachable s n \<Longrightarrow> reachable (handleImagesUpload u s) n"
| reach_click:
    "reachable s n \<Longrightarrow> analyze_button_click s = (s', req) \<Longrightarrow>
     reachable s' (if req = None then n else Suc n)"
| reach_settle: "reachable s (Suc n) \<Longrightarrow> reachable (handleAnalyzeTraffic_resume w s) n"


section \<open>Notions used to state the properties\<close>


text \<open>
  The shared object of a four-file batch, started on a state with the four direction
  keys, once the readers whose positions are in \<open>S\<close> have completed.
\<close>

definition filled :: "js_file list \<Rightarrow> (nat \<Rightarrow> string) \<Rightarrow> nat set \<Rightarrow> slots" where
  "filled fs res S =
     map (\<lambda>i. (directions ! i, if i \<in> S then Some (mk_image (fs ! i) (res i)) else None))
       [0, 1, 2, 3]"

subsection \<open>Sample data for the concrete instances\<close>

definition sample_file :: "nat \<Rightarrow> js_file" where
  "sample_file k =
     \<lparr>file_name = ''cam'' @ show_nat k @ ''.png'', file_size = 1000 + k, file_bytes = []\<rparr>"

definition sample_url :: "nat \<Rightarrow> string" where
  "sample_url i = ''data:image/png;base64,'' @ show_nat i"

definition full_images :: slots where
  "full_images =
     [(''north'', Some (mk_image (sample_file 0) (sample_url 0))),
      (''south'', Some (mk_image (sample_file 1) (sample_url 1))),
      (''east'', Some (mk_image (sample_file 2) (sample_url 2))),
      (''west'', Some (mk_image (sample_file 3) (sample_url 3)))]"

text \<open>The App state after all four images were notified and the button was clicked.\<close>

definition requesting_app :: app_state where
  "requesting_app = fst (analyze_button_click (handleImagesUpload full_images initial_app))"

text \<open>A body with the direction tables given and every other field absent.\<close>

definition result_body ::
  "int js_object \<Rightarrow> string js_object \<Rightarrow> string js_object \<Rightarrow> body" where
  "result_body counts density states =
     \<lparr>vehicle_counts = Some counts, traffic_density = Some density,
      signal_states = Some states, recommendations = Some [],
      analysis_timestamp = Some ''2024-05-01T10:00:00Z'', ai_confidence = Some 1,
      processing_time_ms = Some 120, error_field = None\<rparr>"

text \<open>A success body whose \<open>signal_states\<close> has no \<open>west\<close> entry.\<close>

definition partial_body :: body where
  "partial_body =
     result_body
       [(''north'', 12), (''south'', 5), (''east'', 8), (''west'', 3)]
       [(''north'', ''high''), (''south'', ''low''), (''east'', ''medium''), (''west'', ''low'')]
       [(''north'', ''green''), (''south'', ''red''), (''east'', ''red'')]"

definition complete_body :: body where
  "complete_body =
     result_body
       [(''north'', 12), (''south'', 5), (''east'', 8), (''west'', 3)]
       [(''north'', ''high''), (''south'', ''low''), (''east'', ''medium''), (''west'', ''low'')]
       [(''north'', ''green''), (''south'', ''red''), (''east'', ''red''), (''west'', ''green'')]"

text \<open>An error body: only the \<open>error\<close> field, if any.\<close>

definition error_body :: "string option \<Rightarrow> body" where
  "error_body e =
     \<lparr>vehicle_counts = None, traffic_density = None, signal_states = None,
      recommendations = None, analysis_timestamp = None, ai_confidence = None,
      processing_time_ms = None, error_field = e\<rparr>"



text \<open>The upload state with a fifth key that a drop of five files leaves.\<close>

definition five_key_images :: slots where
  "five_key_images =
     [(''north'', Some (mk_image (sample_file 0) (sample_url 0))),
      (''south'', Some (mk_image (sample_file 1) (sample_url 1))),
      (''east'', Some (mk_image (sample_file 2) (sample_url 2))),
      (''west'', Some (mk_image (sample_file 3) (sample_url 3))),
      (''undefined'', Some (mk_image (sample_file 4) (sample_url 4)))]"





section \<open>Unfolding rules and basic facts\<close>


lemmas upload_defs = assignSingle_def handleIndividualUpload_def
  handleIndividualUpload_onload_def removeImage_def assignBulk_def onDrop_def
  onDrop_onload_def pick_direction_def directions_at_def directions_def every_not_null_def
  Object_values_def Object_keys_def js_get_def js_not_def

lemmas app_defs = handleImagesUpload_def handleAnalyzeTraffic_def
  handleAnalyzeTraffic_resume_def analyze_button_click_def analyze_button_disabled_def
  allImagesUploaded_def analyzeTraffic_def response_interceptor_def axios_settle_def

lemma keys_js_set:
  "k \<in> set (Object_keys obj) \<Longrightarrow> Object_keys (js_set obj k v) = Object_keys obj"
proof (induction obj)
  case Nil
  then show ?case by (simp add: Object_keys_def)
next
  case (Cons p obj)
  obtain k' v' where p: "p = (k', v')" by (cases p)
  show ?case
  proof (cases "k' = k")
    case True
    then show ?thesis by (simp add: p Object_keys_def)
  next
    case False
    with Cons.prems have "k \<in> set (Object_keys obj)" by (simp add: p Object_keys_def)
    from Cons.IH [OF this] False show ?thesis by (simp add: p Object_keys_def)
  qed
qed

section \<open>The analysis request: validation, re-entry, settlement\<close>

subsection \<open>C1: submitting an incomplete upload state\<close>

lemma null_slot_not_every:
  assumes "js_get imgs d = Some None"
  shows "\<not> every_not_null imgs"
proof -
  from assms have "(d, None) \<in> set imgs"
    by (simp add: js_get_def map_of_SomeD)
  then have "None \<in> set (Object_values imgs)"
    by (force simp: Object_values_def)
  then show ?thesis
    by (auto simp: every_not_null_def list_all_iff)
qed

text \<open>
  C1. If the slot of some direction is \<^verbatim>\<open>null\<close> in the App's upload state, then
  handleAnalyzeTraffic issues no request, and the only change of state is that the
  error becomes the incomplete-upload message (the state is a failed one; \<open>loading\<close>,
  the stored analysis and the images are as before).
\<close>

theorem submit_incomplete_no_request:
  assumes "d \<in> set directions" and "js_get (images s) d = Some None"
  shows "handleAnalyzeTraffic s =
           (s\<lparr>error := Some ''Please upload images for all four directions''\<rparr>, None)"
  using null_slot_not_every [OF assms(2)] by (simp add: handleAnalyzeTraffic_def)

theorem submit_incomplete_no_request_witness:
  "''east'' \<in> set directions \<and> js_get (images initial_app) ''east'' = Some None \<and>
   handleAnalyzeTraffic initial_app =
     (initial_app\<lparr>error := Some ''Please upload images for all four directions''\<rparr>, None)"
proof -
  have d: "''east'' \<in> set directions" by (simp add: directions_def)
  have n: "js_get (images initial_app) ''east'' = Some None"
    by (simp add: initial_app_def initial_images_def js_get_def)
  from d n submit_incomplete_no_request [OF d n] show ?thesis by simp
qed

subsection \<open>C3: a second submission while a request is in flight\<close>

lemma reachable_in_flight: "reachable s n \<Longrightarrow> n = (if loading s then 1 else 0)"
proof (induction rule: reachable.induct)
  case reach_init
  show ?case by (simp add: initial_app_def)
next
  case (reach_notify s n u)
  then show ?case by (simp add: handleImagesUpload_def)
next
  case (reach_click s n s' req)
  then show ?case
    by (auto simp: analyze_button_click_def analyze_button_disabled_def
        handleAnalyzeTraffic_def allImagesUploaded_def split: if_splits)
next
  case (reach_settle s n w)
  then show ?case
    by (simp add: handleAnalyzeTraffic_resume_def split: if_splits sum.splits)
qed

lemma full_images_every: "every_not_null full_images"
  by (simp add: full_images_def every_not_null_def Object_values_def)

lemma requesting_app_eq:
  "requesting_app = \<lparr>images = full_images, analysis = None, loading = True, error = None\<rparr>"
  by (simp add: requesting_app_def app_defs initial_app_def full_images_every)

lemma requesting_app_reachable: "reachable requesting_app (Suc 0)"
proof -
  have "reachable (handleImagesUpload full_images initial_app) 0"
    by (intro reach_notify reach_init)
  from reach_click [OF this, of requesting_app "Some (formData full_images)"]
  show ?thesis
    by (simp add: requesting_app_eq app_defs initial_app_def full_images_every)
qed

text \<open>
  C3, as the code has it. In every App state the user interface can reach, at most one
  request is in flight, \<open>loading\<close> is set exactly while one is, and while it is set the
  analyze button is disabled: a click issues no request and leaves the state
  unchanged (no error is stored).
\<close>

theorem button_guards_reentry:
  assumes "reachable s n"
  shows "n \<le> 1 \<and> (loading s \<longleftrightarrow> n = 1) \<and>
         (loading s \<longrightarrow> analyze_button_click s = (s, None))"
  using reachable_in_flight [OF assms]
  by (simp add: analyze_button_click_def analyze_button_disabled_def)

theorem button_guards_reentry_witness:
  "reachable requesting_app (Suc 0) \<and> loading requesting_app \<and>
   analyze_button_click requesting_app = (requesting_app, None)"
  using button_guards_reentry [OF requesting_app_reachable] requesting_app_reachable
  by simp

text \<open>
  The handler itself has no such guard: called on a complete state while \<open>loading\<close>
  is set, it issues a request and stores no error.
\<close>

theorem second_submit_counterexample:
  "loading requesting_app \<and>
   handleAnalyzeTraffic requesting_app = (requesting_app, Some (formData full_images))"
  by (simp add: requesting_app_eq handleAnalyzeTraffic_def full_images_every)

subsection \<open>C4: a success response with missing direction keys\<close>

text \<open>
  C4, as the code has it. The body of every 2xx response is stored as the analysis as
  it is, whatever it holds; \<open>loading\<close> is cleared and nothing else changes (no error
  is stored).
\<close>

theorem success_stored_unvalidated:
  assumes "200 \<le> status r" and "status r < 300"
  shows "handleAnalyzeTraffic_resume (Reply r) s = s\<lparr>analysis := data r, loading := False\<rparr>"
  using assms
  by (simp add: handleAnalyzeTraffic_resume_def analyzeTraffic_def response_interceptor_def
      axios_settle_def)

theorem success_stored_unvalidated_witness:
  "handleAnalyzeTraffic_resume (Reply \<lparr>status = 200, data = Some complete_body\<rparr>) requesting_app
     = \<lparr>images = full_images, analysis = Some complete_body, loading = False, error = None\<rparr>"
  using success_stored_unvalidated
          [of "\<lparr>status = 200, data = Some complete_body\<rparr>" requesting_app]
  by (simp add: requesting_app_eq)

text \<open>
  A 200 response whose \<open>signal_states\<close> lacks \<open>west\<close> is accepted: it becomes the
  stored analysis and no error is stored.
\<close>

theorem partial_result_counterexample:
  "signal_states partial_body =
     Some [(''north'', ''green''), (''south'', ''red''), (''east'', ''red'')] \<and>
   js_get [(''north'', ''green''), (''south'', ''red''), (''east'', ''red'')] ''west'' = None \<and>
   handleAnalyzeTraffic_resume (Reply \<lparr>status = 200, data = Some partial_body\<rparr>) requesting_app
     = \<lparr>images = full_images, analysis = Some partial_body, loading = False, error = None\<rparr>"
  by (simp add: handleAnalyzeTraffic_resume_def analyzeTraffic_def response_interceptor_def
      axios_settle_def requesting_app_eq partial_body_def result_body_def js_get_def)

subsection \<open>C6: the message of a failed request\<close>

text \<open>
  C6, as the code has it. For a reply whose status is not 2xx, the stored error is the
  body's \<open>error\<close> field when that field is present and not the empty string, and
  otherwise (no body, no such field, or the empty string)
  \<open>Server error: \<close> followed by the status code. When no reply is received, the
  stored error is the fixed no-response message.
\<close>

theorem failure_classifier:
  "(\<not> (200 \<le> status r \<and> status r < 300) \<and>
      data r = Some d \<and> error_field d = Some m \<and> m \<noteq> [] \<longrightarrow>
      error (handleAnalyzeTraffic_resume (Reply r) s) = Some m) \<and>
   (\<not> (200 \<le> status r \<and> status r < 300) \<and>
      (data r = None \<or> (data r = Some d \<and> (error_field d = None \<or> error_field d = Some []))) \<longrightarrow>
      error (handleAnalyzeTraffic_resume (Reply r) s) =
        Some (''Server error: '' @ show_nat (status r))) \<and>
   error (handleAnalyzeTraffic_resume No_reply s) =
     Some ''No response from server. Please check if the backend is running.''"
  by (auto simp: handleAnalyzeTraffic_resume_def analyzeTraffic_def response_interceptor_def
      axios_settle_def split: option.splits)

theorem failure_classifier_witness:
  "error (handleAnalyzeTraffic_resume
            (Reply \<lparr>status = 500, data = Some (error_body (Some ''model unavailable''))\<rparr>)
            requesting_app) = Some ''model unavailable'' \<and>
   error (handleAnalyzeTraffic_resume (Reply \<lparr>status = 404, data = None\<rparr>) requesting_app) =
     Some ''Server error: 404'' \<and>
   error (handleAnalyzeTraffic_resume No_reply requesting_app) =
     Some ''No response from server. Please check if the backend is running.''"
proof -
  have m: "error_field (error_body (Some ''model unavailable'')) = Some ''model unavailable''"
    by (simp add: error_body_def)
  have n: "show_nat 404 = ''404''"
    by (simp add: show_nat.simps)
  from failure_classifier
         [of "\<lparr>status = 500, data = Some (error_body (Some ''model unavailable''))\<rparr>"
             "error_body (Some ''model unavailable'')" "''model unavailable''" requesting_app]
       failure_classifier [of "\<lparr>status = 404, data = None\<rparr>" undefined undefined requesting_app]
       m n
  show ?thesis by simp
qed

text \<open>
  A 500 reply whose body has the \<open>error\<close> field, holding the empty string: the stored
  error is not that field but the message made from the status code.
\<close>

theorem empty_error_field_counterexample:
  "error_field (error_body (Some [])) = Some [] \<and>
   error (handleAnalyzeTraffic_resume
            (Reply \<lparr>status = 500, data = Some (error_body (Some []))\<rparr>) requesting_app)
     = Some ''Server error: 500''"
  by (simp add: handleAnalyzeTraffic_resume_def analyzeTraffic_def response_interceptor_def
      axios_settle_def error_body_def show_nat.simps)

section \<open>The derived statistics\<close>















section \<open>The upload state\<close>

subsection \<open>C2: a bulk drop of exactly four files\<close>

lemma keys_four:
  assumes "Object_keys imgs = directions"
  shows "\<exists>a b c d. imgs = [(''north'', a), (''south'', b), (''east'', c), (''west'', d)]"
proof -
  from assms have m: "map fst imgs = [''north'', ''south'', ''east'', ''west'']"
    by (simp add: Object_keys_def directions_def)
  then obtain p1 p2 p3 p4 where imgs: "imgs = [p1, p2, p3, p4]"
    by (auto simp: map_eq_Cons_conv)
  with m have "fst p1 = ''north''" "fst p2 = ''south''" "fst p3 = ''east''" "fst p4 = ''west''"
    by simp_all
  then have "imgs = [(''north'', snd p1), (''south'', snd p2), (''east'', snd p3),
                     (''west'', snd p4)]"
    unfolding imgs by (metis prod.collapse)
  then show ?thesis by blast
qed

lemma reset_four:
  assumes "Object_keys imgs = directions"
  shows "foldl (\<lambda>obj dir. js_set obj dir None) imgs directions = filled fs res {}"
proof -
  from keys_four [OF assms] obtain a b c d
    where "imgs = [(''north'', a), (''south'', b), (''east'', c), (''west'', d)]" by blast
  then show ?thesis by (simp add: directions_def filled_def)
qed

lemma fill_one:
  assumes "i < 4"
  shows "js_set (filled fs res S) (directions ! i) (Some (mk_image (fs ! i) (res i)))
         = filled fs res (insert i S)"
proof -
  from assms have "i = 0 \<or> i = 1 \<or> i = 2 \<or> i = 3" by arith
  then show ?thesis
    by (elim disjE) (simp_all add: filled_def directions_def)
qed

lemma onload_four:
  assumes "length fs = 4" and "i < 4"
  shows "onDrop_onload \<lparr>batch_newImages = filled fs res S, batch_files = fs\<rparr> (fs ! i) i (res i)
         = (\<lparr>batch_newImages = filled fs res (insert i S), batch_files = fs\<rparr>,
            filled fs res (insert i S),
            if every_not_null (filled fs res (insert i S))
            then [filled fs res (insert i S)] else [])"
  using assms fill_one [OF assms(2), of fs res S]
  by (simp add: onDrop_onload_def pick_direction_def directions_at_def Let_def directions_def)

lemma reads_four:
  assumes "length fs = 4" and "set order \<subseteq> {0, 1, 2, 3}" and "order \<noteq> []"
  shows "\<exists>sent'. complete_reads res order
           (\<lparr>batch_newImages = filled fs res S, batch_files = fs\<rparr>, imgs, sent)
         = Some (\<lparr>batch_newImages = filled fs res (S \<union> set order), batch_files = fs\<rparr>,
                 filled fs res (S \<union> set order), sent')"
  using assms(2,3)
proof (induction order arbitrary: S imgs sent)
  case Nil
  then show ?case by simp
next
  case (Cons i order)
  from Cons.prems have i: "i < 4" and sub: "set order \<subseteq> {0, 1, 2, 3}" by auto
  show ?case
  proof (cases "order = []")
    case True
    then show ?thesis
      using assms(1) i onload_four [OF assms(1) i, of res S] by simp
  next
    case False
    from Cons.IH [OF sub False, of "insert i S"] show ?thesis
      using assms(1) i onload_four [OF assms(1) i, of res S] by simp
  qed
qed

text \<open>
  On a prior state with exactly the four direction keys, a drop of exactly four files
  \<open>a, b, c, d\<close>, once all four readers have completed (in whatever order), leaves the
  component state \<open>{north: a, south: b, east: c, west: d}\<close>: the file at position \<open>i\<close>
  is in the slot of the \<open>i\<close>-th direction, with its own name and size and the preview
  read from it, whatever the files are called and whatever the slots held before.
\<close>

lemma four_key_prior_by_position:
  assumes "Object_keys imgs = directions" and "set order = {0, 1, 2, 3}"
  shows "map_option fst (assignBulk res order [a, b, c, d] imgs) =
           Some [(''north'', Some \<lparr>file_obj = a, preview = res 0,
                                    name = file_name a, size_bytes = file_size a\<rparr>),
                 (''south'', Some \<lparr>file_obj = b, preview = res 1,
                                    name = file_name b, size_bytes = file_size b\<rparr>),
                 (''east'', Some \<lparr>file_obj = c, preview = res 2,
                                   name = file_name c, size_bytes = file_size c\<rparr>),
                 (''west'', Some \<lparr>file_obj = d, preview = res 3,
                                   name = file_name d, size_bytes = file_size d\<rparr>)]"
proof -
  let ?fs = "[a, b, c, d]"
  from assms(2) have ne: "order \<noteq> []" and sub: "set order \<subseteq> {0, 1, 2, 3}" by auto
  have start: "onDrop imgs ?fs = \<lparr>batch_newImages = filled ?fs res {}, batch_files = ?fs\<rparr>"
    using reset_four [OF assms(1), of ?fs res] by (simp add: onDrop_def)
  from reads_four [OF _ sub ne, of ?fs res "{}" imgs "[]"] obtain sent' where
    "complete_reads res order (onDrop imgs ?fs, imgs, []) =
       Some (\<lparr>batch_newImages = filled ?fs res (set order), batch_files = ?fs\<rparr>,
             filled ?fs res (set order), sent')"
    unfolding start by auto
  then have "map_option fst (assignBulk res order ?fs imgs) = Some (filled ?fs res {0, 1, 2, 3})"
    by (simp add: assignBulk_def assms(2))
  then show ?thesis by (simp add: filled_def directions_def mk_image_def)
qed

lemma four_key_prior_by_position_instance:
  "map_option fst
     (assignBulk sample_url [2, 0, 3, 1]
        [sample_file 4, sample_file 5, sample_file 6, sample_file 7]
        [(''north'', Some (mk_image (sample_file 8) (sample_url 8))), (''south'', None),
         (''east'', Some (mk_image (sample_file 9) (sample_url 9))), (''west'', None)]) =
   Some [(''north'', Some (mk_image (sample_file 4) (sample_url 0))),
         (''south'', Some (mk_image (sample_file 5) (sample_url 1))),
         (''east'', Some (mk_image (sample_file 6) (sample_url 2))),
         (''west'', Some (mk_image (sample_file 7) (sample_url 3)))]"
proof -
  let ?prior = "[(''north'', Some (mk_image (sample_file 8) (sample_url 8))), (''south'', None),
                 (''east'', Some (mk_image (sample_file 9) (sample_url 9))), (''west'', None)]"
  have k: "Object_keys ?prior = directions"
    by (simp add: Object_keys_def directions_def)
  have o: "set [2, 0, 3, 1] = {0, 1, 2, 3 :: nat}" by auto
  from four_key_prior_by_position [OF k o] show ?thesis
    by (simp add: mk_image_def)
qed

text \<open>
  C2 at a prior state the code reaches with a fifth key. A drop of five files on the
  initial state, the readers completing in the order of the files, leaves the state
  \<open>five_key_images\<close>. A drop of exactly four files on that state resets and fills the
  four directions by position, and keeps the fifth entry: the state is not
  \<open>{north, south, east, west}\<close> of the four files alone.
\<close>

theorem four_files_keep_fifth_key:
  "map_option fst
     (assignBulk sample_url [0, 1, 2, 3, 4]
        [sample_file 0, sample_file 1, sample_file 2, sample_file 3, sample_file 4]
        initial_images) = Some five_key_images \<and>
   map_option fst
     (assignBulk sample_url [0, 1, 2, 3]
        [sample_file 5, sample_file 6, sample_file 7, sample_file 8]
        five_key_images) =
   Some [(''north'', Some \<lparr>file_obj = sample_file 5, preview = sample_url 0,
            name = file_name (sample_file 5), size_bytes = file_size (sample_file 5)\<rparr>),
         (''south'', Some \<lparr>file_obj = sample_file 6, preview = sample_url 1,
            name = file_name (sample_file 6), size_bytes = file_size (sample_file 6)\<rparr>),
         (''east'', Some \<lparr>file_obj = sample_file 7, preview = sample_url 2,
            name = file_name (sample_file 7), size_bytes = file_size (sample_file 7)\<rparr>),
         (''west'', Some \<lparr>file_obj = sample_file 8, preview = sample_url 3,
            name = file_name (sample_file 8), size_bytes = file_size (sample_file 8)\<rparr>),
         (''undefined'', Some \<lparr>file_obj = sample_file 4, preview = sample_url 4,
            name = file_name (sample_file 4), size_bytes = file_size (sample_file 4)\<rparr>)]"
  by (simp add: upload_defs initial_images_def five_key_images_def mk_image_def Let_def)

subsection \<open>C5: the keys of the upload state\<close>

text \<open>
  C5 at a drop of five files on the initial state, the readers completing in the order
  of the files: the first four fill the four directions, and the fifth is stored under
  a fifth key, \<open>undefined\<close>.
\<close>

theorem five_files_add_key:
  "map_option fst
     (assignBulk sample_url [0, 1, 2, 3, 4]
        [sample_file 0, sample_file 1, sample_file 2, sample_file 3, sample_file 4]
        initial_images) =
   Some [(''north'', Some (mk_image (sample_file 0) (sample_url 0))),
         (''south'', Some (mk_image (sample_file 1) (sample_url 1))),
         (''east'', Some (mk_image (sample_file 2) (sample_url 2))),
         (''west'', Some (mk_image (sample_file 3) (sample_url 3))),
         (''undefined'', Some (mk_image (sample_file 4) (sample_url 4)))]"
  by (simp add: upload_defs initial_images_def Let_def)

subsection \<open>C10: a per-slot upload without a file\<close>

text \<open>
  C10. For every direction and every upload state, a per-slot upload whose event
  carries no file leaves the state as it is, notifies nobody and starts no reader (so
  nothing happens later either).
\<close>

theorem individual_upload_without_file:
  "handleIndividualUpload direction [] imgs = (imgs, [], None)"
  by (simp add: handleIndividualUpload_def)

subsection \<open>C9: what the upload component notifies\<close>

text \<open>
  C9, as the code has it. removeImage and a per-slot upload that carries a file always
  notify, and the value passed is the complete object just stored as the component's
  state; on a state with the four direction keys and for one of the four directions it
  has exactly these four entries. A reader of a bulk drop notifies only if, after its
  assignment, no slot of the batch's object is \<^verbatim>\<open>null\<close>; what it then passes is
  that whole object, which is also what it stored.
\<close>

theorem notifications_pass_stored_state:
  "removeImage d imgs = (js_set imgs d None, [js_set imgs d None]) \<and>
   assignSingle d f result imgs =
     (js_set imgs d (Some (mk_image f result)), [js_set imgs d (Some (mk_image f result))]) \<and>
   (case onDrop_onload b g i r of
      (b', stored, ns) \<Rightarrow>
        stored = batch_newImages b' \<and> ns = (if every_not_null stored then [stored] else [])) \<and>
   (Object_keys imgs = directions \<and> d \<in> set directions \<longrightarrow>
      Object_keys (js_set imgs d None) = directions \<and>
      Object_keys (js_set imgs d (Some (mk_image f result))) = directions)"
proof -
  have "removeImage d imgs = (js_set imgs d None, [js_set imgs d None])"
    by (simp add: removeImage_def Let_def)
  moreover have "assignSingle d f result imgs =
     (js_set imgs d (Some (mk_image f result)), [js_set imgs d (Some (mk_image f result))])"
    by (simp add: assignSingle_def handleIndividualUpload_def
        handleIndividualUpload_onload_def Let_def)
  moreover have "case onDrop_onload b g i r of
      (b', stored, ns) \<Rightarrow>
        stored = batch_newImages b' \<and> ns = (if every_not_null stored then [stored] else [])"
    by (simp add: onDrop_onload_def Let_def)
  moreover have "Object_keys imgs = directions \<and> d \<in> set directions \<longrightarrow>
      Object_keys (js_set imgs d None) = directions \<and>
      Object_keys (js_set imgs d (Some (mk_image f result))) = directions"
    by (simp add: keys_js_set)
  ultimately show ?thesis by blast
qed

theorem notifications_pass_stored_state_witness:
  "removeImage ''east'' full_images =
     ([(''north'', Some (mk_image (sample_file 0) (sample_url 0))),
       (''south'', Some (mk_image (sample_file 1) (sample_url 1))),
       (''east'', None),
       (''west'', Some (mk_image (sample_file 3) (sample_url 3)))],
      [[(''north'', Some (mk_image (sample_file 0) (sample_url 0))),
        (''south'', Some (mk_image (sample_file 1) (sample_url 1))),
        (''east'', None),
        (''west'', Some (mk_image (sample_file 3) (sample_url 3)))]]) \<and>
   Object_keys (js_set full_images ''east'' None) = directions \<and>
   Object_keys (js_set full_images ''east'' (Some (mk_image (sample_file 6) (sample_url 6))))
     = directions \<and>
   snd (assignSingle ''east'' (sample_file 6) (sample_url 6) full_images) =
     [fst (assignSingle ''east'' (sample_file 6) (sample_url 6) full_images)]"
proof -
  have k: "Object_keys full_images = directions"
    by (simp add: full_images_def Object_keys_def directions_def)
  have d: "''east'' \<in> set directions"
    by (simp add: directions_def)
  have s: "js_set full_images ''east'' None =
     [(''north'', Some (mk_image (sample_file 0) (sample_url 0))),
      (''south'', Some (mk_image (sample_file 1) (sample_url 1))),
      (''east'', None),
      (''west'', Some (mk_image (sample_file 3) (sample_url 3)))]"
    by (simp add: full_images_def)
  from notifications_pass_stored_state
         [of "''east''" full_images "sample_file 6" "sample_url 6"] k d s
  show ?thesis by simp
qed

text \<open>
  A drop of one file on the initial state changes the component's state (north is
  filled) and notifies nobody.
\<close>

theorem partial_drop_counterexample:
  "assignBulk sample_url [0] [sample_file 0] initial_images =
     Some ([(''north'', Some (mk_image (sample_file 0) (sample_url 0))),
            (''south'', None), (''east'', None), (''west'', None)],
           [])"
  by (simp add: upload_defs initial_images_def Let_def)

subsection \<open>C8: upload changes and the stored error\<close>








end
